theory Spec2Isabelle
  imports Complex_Main
begin

section \<open>Objects of the mixing console\<close>

text \<open>
  The classes of \<^verbatim>\<open>src/index.ts\<close> are records; objects live in a store and are
  named by references, because a track is shared between the caller and every channel
  whose list holds it, and a channel between its mixer and the timers that fade it.
  A gain, pan or filter node is represented by the value of its one parameter.
  Numbers are real numbers: rounding to the engine's floating-point format is outside
  the model, and the examples below use values that the format represents exactly.
\<close>

type_synonym ref = nat

datatype HTMLAudioElement = Element nat | CreatedFrom string

record AudioTrack =
  audioElement :: HTMLAudioElement
  sourceNode :: "ref set"  \<comment> \<open>the channels whose input node the source node feeds\<close>

record AudioChannel =
  mixer :: ref
  id_c :: string
  inputNode :: real
  outputNode :: real
  gainNode :: real
  stereoPannerNode :: real
  LowEQNode :: real
  MidEQNode :: real
  HighEQNode :: real
  tracks :: "ref list"

record AudioMixer =
  channels :: "ref list"
  gainNode_m :: real

subsection \<open>Timers and promises\<close>

text \<open>
  A fade is a periodic timer whose callback closes over the channel and the step
  \<^verbatim>\<open>vpc\<close>. A step of \<open>None\<close> stands for the non-finite quotient that
  \<^verbatim>\<open>2 / ms\<close> is for a zero duration. The promise made by the same call shares the
  timer's handle.
\<close>

datatype fade = FadeOut | FadeIn

record interval =
  kind :: fade
  chan :: ref
  vpc :: "real option"
  delay :: nat

datatype promise = Pending | Fulfilled bool | Rejected

record world =
  mixerHeap :: "ref \<Rightarrow> AudioMixer"
  channelHeap :: "ref \<Rightarrow> AudioChannel"
  trackHeap :: "ref \<Rightarrow> AudioTrack"
  nextRef :: ref
  intervals :: "nat \<rightharpoonup> interval"
  promises :: "nat \<rightharpoonup> promise"
  nextHandle :: nat

section \<open>Library functions the source calls\<close>

text \<open>\<^verbatim>\<open>Array.prototype.findIndex\<close>: the index of the first element that satisfies
  the test, \<open>-1\<close> when there is none.\<close>

fun findIndex :: "('a \<Rightarrow> bool) \<Rightarrow> 'a list \<Rightarrow> int" where
  "findIndex P [] = -1"
| "findIndex P (x # xs) =
     (if P x then 0 else (let i = findIndex P xs in if i = -1 then -1 else i + 1))"

text \<open>Reading \<^verbatim>\<open>xs[i]\<close>: \<open>None\<close> is JavaScript's \<^verbatim>\<open>undefined\<close>, which is what
  an index outside the array gives.\<close>

definition at_index :: "'a list \<Rightarrow> int \<Rightarrow> 'a option" where
  "at_index xs i = (if 0 \<le> i \<and> i < int (length xs) then Some (xs ! nat i) else None)"

text \<open>\<^verbatim>\<open>Number.prototype.toString\<close> on an array length: its decimal digits.\<close>

definition digit :: "nat \<Rightarrow> char" where
  "digit d = ''0123456789'' ! d"

fun toString :: "nat \<Rightarrow> string" where
  "toString n = (if n < 10 then [digit n] else toString (n div 10) @ [digit (n mod 10)])"

declare toString.simps [simp del]

section \<open>AudioMixer\<close>

definition new_AudioMixer :: "world \<Rightarrow> ref \<times> world" where
  "new_AudioMixer w =
     (let r = nextRef w
      in (r, w\<lparr>mixerHeap := (mixerHeap w)(r := \<lparr>channels = [], gainNode_m = 1\<rparr>),
               nextRef := Suc r\<rparr>))"

definition createAudioMixer :: "world \<Rightarrow> ref \<times> world" where
  "createAudioMixer w = new_AudioMixer w"

definition new_AudioChannel :: "ref \<Rightarrow> world \<Rightarrow> ref \<times> world" where
  "new_AudioChannel mixingConsole w =
     (let r = nextRef w
      in (r, w\<lparr>channelHeap := (channelHeap w)(r :=
                 \<lparr>mixer = mixingConsole, id_c = ''N/A'',
                  inputNode = 1, outputNode = 1, gainNode = 1, stereoPannerNode = 0,
                  LowEQNode = 0, MidEQNode = 0, HighEQNode = 0, tracks = []\<rparr>),
               nextRef := Suc r\<rparr>))"

text \<open>\<^verbatim>\<open>id || this.channels.length.toString( )\<close>: an argument that is left out
  (\<open>None\<close>) and the empty string are both falsy.\<close>

definition or_default :: "string option \<Rightarrow> string \<Rightarrow> string" where
  "or_default v d = (case v of None \<Rightarrow> d | Some s \<Rightarrow> if s = [] then d else s)"

definition addChannel :: "ref \<Rightarrow> string option \<Rightarrow> world \<Rightarrow> ref \<times> world" where
  "addChannel m ident w =
     (let (channel, w1) = new_AudioChannel m w;
          w2 = w1\<lparr>channelHeap := (channelHeap w1)(channel := (channelHeap w1 channel)
                 \<lparr>id_c := or_default ident (toString (length (channels (mixerHeap w1 m))))\<rparr>)\<rparr>;
          w3 = w2\<lparr>mixerHeap := (mixerHeap w2)(m := (mixerHeap w2 m)
                 \<lparr>channels := channels (mixerHeap w2 m) @ [channel]\<rparr>)\<rparr>
      in (channel, w3))"

text \<open>\<^verbatim>\<open>this.channels[ i ] || null\<close>: a channel object is truthy, \<^verbatim>\<open>undefined\<close>
  becomes \<^verbatim>\<open>null\<close>; both absent values are \<open>None\<close>.\<close>

definition getChannel :: "ref \<Rightarrow> string \<Rightarrow> world \<Rightarrow> ref option" where
  "getChannel m ident w =
     (let i = findIndex (\<lambda>c. id_c (channelHeap w c) = ident) (channels (mixerHeap w m))
      in case at_index (channels (mixerHeap w m)) i of None \<Rightarrow> None | Some c \<Rightarrow> Some c)"

definition set_volume_m :: "ref \<Rightarrow> real \<Rightarrow> world \<Rightarrow> world" where
  "set_volume_m m v w = w\<lparr>mixerHeap := (mixerHeap w)(m := (mixerHeap w m)\<lparr>gainNode_m := v\<rparr>)\<rparr>"

definition get_volume_m :: "ref \<Rightarrow> world \<Rightarrow> real" where
  "get_volume_m m w = gainNode_m (mixerHeap w m)"

section \<open>AudioChannel\<close>

definition upd_channel :: "ref \<Rightarrow> (AudioChannel \<Rightarrow> AudioChannel) \<Rightarrow> world \<Rightarrow> world" where
  "upd_channel c f w = w\<lparr>channelHeap := (channelHeap w)(c := f (channelHeap w c))\<rparr>"

definition set_pan :: "ref \<Rightarrow> real \<Rightarrow> world \<Rightarrow> world" where
  "set_pan c v w = upd_channel c (\<lambda>ch. ch\<lparr>stereoPannerNode := v\<rparr>) w"

definition get_pan :: "ref \<Rightarrow> world \<Rightarrow> real" where
  "get_pan c w = stereoPannerNode (channelHeap w c)"

definition set_volume :: "ref \<Rightarrow> real \<Rightarrow> world \<Rightarrow> world" where
  "set_volume c v w = upd_channel c (\<lambda>ch. ch\<lparr>gainNode := v\<rparr>) w"


definition set_lowEQ :: "ref \<Rightarrow> real \<Rightarrow> world \<Rightarrow> world" where
  "set_lowEQ c v w = upd_channel c (\<lambda>ch. ch\<lparr>LowEQNode := v\<rparr>) w"

definition set_midEQ :: "ref \<Rightarrow> real \<Rightarrow> world \<Rightarrow> world" where
  "set_midEQ c v w = upd_channel c (\<lambda>ch. ch\<lparr>MidEQNode := v\<rparr>) w"

definition set_highEQ :: "ref \<Rightarrow> real \<Rightarrow> world \<Rightarrow> world" where
  "set_highEQ c v w = upd_channel c (\<lambda>ch. ch\<lparr>HighEQNode := v\<rparr>) w"

text \<open>\<^verbatim>\<open>this.outputNode.gain.value = status === true ? 0 : 1\<close>\<close>

definition set_muted :: "ref \<Rightarrow> bool \<Rightarrow> world \<Rightarrow> world" where
  "set_muted c status w = upd_channel c (\<lambda>ch. ch\<lparr>outputNode := (if status = True then 0 else 1)\<rparr>) w"


section \<open>AudioTrack\<close>

datatype audioSource = FromElement nat | FromString string

text \<open>The constructor makes the source node and disconnects it from everything.\<close>

definition new_AudioTrack :: "audioSource \<Rightarrow> world \<Rightarrow> ref \<times> world" where
  "new_AudioTrack src w =
     (let r = nextRef w;
          el = (case src of FromString s \<Rightarrow> CreatedFrom s | FromElement e \<Rightarrow> Element e)
      in (r, w\<lparr>trackHeap := (trackHeap w)(r := \<lparr>audioElement = el, sourceNode = {}\<rparr>),
               nextRef := Suc r\<rparr>))"

text \<open>\<^verbatim>\<open>output\<close> returns \<^verbatim>\<open>true\<close> when the track is already in the channel's list
  and nothing (\<open>None\<close>) after it has connected the track.\<close>

definition output_t :: "ref \<Rightarrow> ref \<Rightarrow> world \<Rightarrow> bool option \<times> world" where
  "output_t this channel w =
     (let connected = findIndex (\<lambda>t. t = this) (tracks (channelHeap w channel))
      in if connected \<noteq> -1 then (Some True, w)
         else
           (let w1 = w\<lparr>trackHeap := (trackHeap w)(this := (trackHeap w this)\<lparr>sourceNode := {}\<rparr>)\<rparr>;
                w2 = w1\<lparr>trackHeap := (trackHeap w1)(this := (trackHeap w1 this)
                       \<lparr>sourceNode := insert channel (sourceNode (trackHeap w1 this))\<rparr>)\<rparr>;
                w3 = upd_channel channel (\<lambda>ch. ch\<lparr>tracks := tracks ch @ [this]\<rparr>) w2
            in (None, w3)))"

definition addTrack :: "ref \<Rightarrow> ref \<Rightarrow> world \<Rightarrow> ref \<times> world" where
  "addTrack this track w = (let (r, w1) = output_t track this w in (this, w1))"

datatype inputSource = Track ref | Raw audioSource

definition input_c :: "ref \<Rightarrow> inputSource \<Rightarrow> world \<Rightarrow> ref \<times> world" where
  "input_c this source w =
     (case source of
        Track t \<Rightarrow> (let (r, w1) = addTrack this t w in (t, w1))
      | Raw src \<Rightarrow>
          (let (track, w1) = new_AudioTrack src w;
               (r, w2) = addTrack this track w1
           in (track, w2)))"

section \<open>Fades\<close>

text \<open>The duration argument: left out, a value that is not of type number, or a
  number. The first two become 2000. Durations are finite numbers here.\<close>

datatype duration = Undefined | NonNumber | Number real

definition ms_of :: "duration \<Rightarrow> real" where
  "ms_of d = (case d of Number ms \<Rightarrow> ms | Undefined \<Rightarrow> 2000 | NonNumber \<Rightarrow> 2000)"

text \<open>\<^verbatim>\<open>( 2 / ms ) * 10\<close>. JavaScript's quotient by zero is infinite, HOL's is \<open>0\<close>:
  the zero duration is a case of its own.\<close>

definition vpc_of :: "real \<Rightarrow> real option" where
  "vpc_of ms = (if ms = 0 then None else Some ((2 / ms) * 10))"

text \<open>\<^verbatim>\<open>setInterval\<close> registers the callback under a handle that is not in use and
  returns the handle; \<^verbatim>\<open>clearInterval\<close> removes it.\<close>

definition setInterval :: "interval \<Rightarrow> world \<Rightarrow> nat \<times> world" where
  "setInterval iv w =
     (let h = nextHandle w
      in (h, w\<lparr>intervals := (intervals w)(h \<mapsto> iv), nextHandle := Suc h\<rparr>))"

definition clearInterval :: "nat \<Rightarrow> world \<Rightarrow> world" where
  "clearInterval h w = w\<lparr>intervals := (intervals w)(h := None)\<rparr>"

text \<open>\<^verbatim>\<open>res( true )\<close>: only a pending promise changes.\<close>

definition res :: "nat \<Rightarrow> bool \<Rightarrow> world \<Rightarrow> world" where
  "res h v w = (if promises w h = Some Pending
                then w\<lparr>promises := (promises w)(h \<mapsto> Fulfilled v)\<rparr> else w)"

text \<open>A fade call makes a promise, and the executor of the promise computes the step
  and starts the timer. The call returns the promise, which is pending.\<close>

definition fadeOut :: "ref \<Rightarrow> duration \<Rightarrow> world \<Rightarrow> nat \<times> world" where
  "fadeOut this d w =
     (let ms = ms_of d;
          (h, w1) = setInterval \<lparr>kind = FadeOut, chan = this, vpc = vpc_of ms, delay = 2\<rparr> w
      in (h, w1\<lparr>promises := (promises w1)(h \<mapsto> Pending)\<rparr>))"

definition fadeIn :: "ref \<Rightarrow> duration \<Rightarrow> world \<Rightarrow> nat \<times> world" where
  "fadeIn this d w =
     (let ms = ms_of d;
          (h, w1) = setInterval \<lparr>kind = FadeIn, chan = this, vpc = vpc_of ms, delay = 2\<rparr> w
      in (h, w1\<lparr>promises := (promises w1)(h \<mapsto> Pending)\<rparr>))"

text \<open>
  The two timer callbacks. The gain parameter of the audio engine takes finite values
  only: assigning the non-finite result of a non-finite step raises a type error in
  the callback, which leaves the gain and the timer as they were.
\<close>

datatype error = TypeError

definition set_inputGain :: "ref \<Rightarrow> real \<Rightarrow> world \<Rightarrow> world" where
  "set_inputGain c v w = upd_channel c (\<lambda>ch. ch\<lparr>inputNode := v\<rparr>) w"

definition fadeOut_callback :: "nat \<Rightarrow> ref \<Rightarrow> real option \<Rightarrow> world \<Rightarrow> error + world" where
  "fadeOut_callback handle c step w =
     (if inputNode (channelHeap w c) \<le> 0
      then Inr (res handle True (clearInterval handle (set_inputGain c 0 w)))
      else case step of
             None \<Rightarrow> Inl TypeError
           | Some v \<Rightarrow> Inr (set_inputGain c (inputNode (channelHeap w c) - v) w))"

definition fadeIn_callback :: "nat \<Rightarrow> ref \<Rightarrow> real option \<Rightarrow> world \<Rightarrow> error + world" where
  "fadeIn_callback handle c step w =
     (if inputNode (channelHeap w c) \<ge> 1
      then Inr (res handle True (clearInterval handle (set_inputGain c 1 w)))
      else case step of
             None \<Rightarrow> Inl TypeError
           | Some v \<Rightarrow> Inr (set_inputGain c (inputNode (channelHeap w c) + v) w))"

text \<open>One firing of the timer with handle \<open>h\<close>. A cleared timer does not fire; an error
  raised by the callback ends that firing and nothing else.\<close>

definition tick :: "nat \<Rightarrow> world \<Rightarrow> world" where
  "tick h w =
     (case intervals w h of
        None \<Rightarrow> w
      | Some iv \<Rightarrow>
          (case (case kind iv of
                   FadeOut \<Rightarrow> fadeOut_callback h (chan iv) (vpc iv) w
                 | FadeIn \<Rightarrow> fadeIn_callback h (chan iv) (vpc iv) w) of
             Inl e \<Rightarrow> w
           | Inr w1 \<Rightarrow> w1))"

text \<open>What can happen to a channel while its fades run: timers fire in any order, and
  the caller starts fades and sets properties between the firings.\<close>

datatype event =
    Tick nat
  | CallFadeOut ref duration
  | CallFadeIn ref duration
  | SetVolume ref real
  | SetMuted ref bool
  | SetPan ref real

fun exec :: "event \<Rightarrow> world \<Rightarrow> world" where
  "exec (Tick h) w = tick h w"
| "exec (CallFadeOut c d) w = snd (fadeOut c d w)"
| "exec (CallFadeIn c d) w = snd (fadeIn c d w)"
| "exec (SetVolume c v) w = set_volume c v w"
| "exec (SetMuted c b) w = set_muted c b w"
| "exec (SetPan c v) w = set_pan c v w"

fun run :: "event list \<Rightarrow> world \<Rightarrow> world" where
  "run [] w = w"
| "run (e # es) w = run es (exec e w)"

section \<open>Example states\<close>

text \<open>The state of a program that has created nothing yet.\<close>

definition empty_world :: world where
  "empty_world =
     \<lparr>mixerHeap = (\<lambda>r. \<lparr>channels = [], gainNode_m = 1\<rparr>),
      channelHeap = (\<lambda>r. \<lparr>mixer = 0, id_c = ''N/A'',
                  inputNode = 1, outputNode = 1, gainNode = 1, stereoPannerNode = 0,
                  LowEQNode = 0, MidEQNode = 0, HighEQNode = 0, tracks = []\<rparr>),
      trackHeap = (\<lambda>r. \<lparr>audioElement = Element 0, sourceNode = {}\<rparr>),
      nextRef = 0,
      intervals = Map.empty,
      promises = Map.empty,
      nextHandle = 0\<rparr>"

text \<open>A new mixer (reference 0) and the states after one, two and three calls of
  \<^verbatim>\<open>addChannel( )\<close> (channels 1, 2 and 3).\<close>

definition new_mixer :: world where
  "new_mixer = snd (createAudioMixer empty_world)"

definition one_channel :: world where
  "one_channel = snd (addChannel 0 None new_mixer)"

definition two_channels :: world where
  "two_channels = snd (addChannel 0 None one_channel)"

definition three_channels :: world where
  "three_channels = snd (addChannel 0 None two_channels)"

text \<open>A mixer with two channels that were both given the id "a".\<close>

definition same_ids :: world where
  "same_ids = snd (addChannel 0 (Some ''a'') (snd (addChannel 0 (Some ''a'') new_mixer)))"

text \<open>Two channels and a track (reference 3) that is attached to nothing, then to
  channel 1, then to channel 2 as well.\<close>

definition with_track :: world where
  "with_track = snd (new_AudioTrack (FromString ''a.mp3'') two_channels)"

definition track_attached :: world where
  "track_attached = snd (addTrack 1 3 with_track)"

definition track_moved :: world where
  "track_moved = snd (addTrack 2 3 track_attached)"

text \<open>Channel 1 after \<^verbatim>\<open>fadeOut( 32 )\<close> (timer 0) and after \<^verbatim>\<open>fadeIn( 32 )\<close> on top
  of it (timer 1); after \<^verbatim>\<open>fadeOut( -32 )\<close> alone; after the fade-out of timer 0 has
  run its three firings, and after \<^verbatim>\<open>fadeIn( 32 )\<close> (timer 1) on the silent channel.\<close>

definition fading_out :: world where
  "fading_out = snd (fadeOut 1 (Number 32) two_channels)"

definition both_fades :: world where
  "both_fades = snd (fadeIn 1 (Number 32) fading_out)"

definition fading_backwards :: world where
  "fading_backwards = snd (fadeOut 1 (Number (- 32)) two_channels)"

definition faded_out :: world where
  "faded_out = run [Tick 0, Tick 0, Tick 0] fading_out"

definition fading_in :: world where
  "fading_in = snd (fadeIn 1 (Number 32) faded_out)"

section \<open>Invariants of the timer table\<close>

text \<open>Every active timer has a handle that \<^verbatim>\<open>setInterval\<close> has already given out.\<close>

definition handles_issued :: "world \<Rightarrow> bool" where
  "handles_issued w = (\<forall>h. intervals w h \<noteq> None \<longrightarrow> h < nextHandle w)"

text \<open>While the promise of a fade is pending, its timer is the one the call registered.\<close>

definition fade_pending :: "fade \<Rightarrow> ref \<Rightarrow> real option \<Rightarrow> nat \<Rightarrow> world \<Rightarrow> bool" where
  "fade_pending k c v h w =
     (h < nextHandle w \<and>
      (promises w h = Some Pending \<longrightarrow>
         intervals w h = Some \<lparr>kind = k, chan = c, vpc = v, delay = 2\<rparr>))"

text \<open>The boundary a fade runs to.\<close>

definition boundary :: "fade \<Rightarrow> real" where
  "boundary k = (case k of FadeOut \<Rightarrow> 0 | FadeIn \<Rightarrow> 1)"

definition fade :: "fade \<Rightarrow> ref \<Rightarrow> duration \<Rightarrow> world \<Rightarrow> nat \<times> world" where
  "fade k c d w = (case k of FadeOut \<Rightarrow> fadeOut c d w | FadeIn \<Rightarrow> fadeIn c d w)"

text \<open>The pre-fade input gain of channel \<open>c\<close> after \<open>n\<close> firings of timer \<open>h\<close> and no
  other event.\<close>

definition gain_after :: "nat \<Rightarrow> nat \<Rightarrow> ref \<Rightarrow> world \<Rightarrow> real" where
  "gain_after n h c w = inputNode (channelHeap (run (replicate n (Tick h)) w) c)"

section \<open>Evaluating the example states\<close>

lemmas op_defs = upd_channel_def set_inputGain_def clearInterval_def res_def setInterval_def
  fadeOut_def fadeIn_def set_volume_def set_muted_def set_pan_def

lemma toString_digit: "n < 10 \<Longrightarrow> toString n = [digit n]"
  by (simp add: toString.simps)

lemma toString_not_empty: "toString n \<noteq> []"
  by (subst toString.simps) simp

lemma digit_0_1_2:
  "digit 0 = CHR ''0''" "digit (Suc 0) = CHR ''1''" "digit (Suc (Suc 0)) = CHR ''2''"
  by (simp_all add: digit_def)

lemma addChannel_eq:
  "addChannel m ident w =
     (nextRef w,
      w\<lparr>channelHeap := (channelHeap w)(nextRef w :=
           \<lparr>mixer = m, id_c = or_default ident (toString (length (channels (mixerHeap w m)))),
            inputNode = 1, outputNode = 1, gainNode = 1, stereoPannerNode = 0,
            LowEQNode = 0, MidEQNode = 0, HighEQNode = 0, tracks = []\<rparr>),
        nextRef := Suc (nextRef w),
        mixerHeap := (mixerHeap w)(m := (mixerHeap w m)
           \<lparr>channels := channels (mixerHeap w m) @ [nextRef w]\<rparr>)\<rparr>)"
  by (simp add: addChannel_def new_AudioChannel_def Let_def)

lemma new_mixer_eq:
  "new_mixer = empty_world\<lparr>mixerHeap := (mixerHeap empty_world)(0 := \<lparr>channels = [], gainNode_m = 1\<rparr>),
                           nextRef := 1\<rparr>"
  by (simp add: new_mixer_def createAudioMixer_def new_AudioMixer_def empty_world_def)

lemmas mixer_eval = new_mixer_eq one_channel_def two_channels_def three_channels_def same_ids_def
  addChannel_eq or_default_def toString_digit digit_0_1_2 empty_world_def

section \<open>Looking a channel up\<close>

lemma findIndex_ge: "- 1 \<le> findIndex P xs"
  by (induction xs) (auto simp: Let_def)

lemma findIndex_none: "findIndex P xs = - 1 \<longleftrightarrow> (\<forall>x \<in> set xs. \<not> P x)"
proof (induction xs)
  case Nil
  show ?case by simp
next
  case (Cons x xs)
  from findIndex_ge [of P xs] have "findIndex P xs + 1 \<noteq> - 1" by linarith
  with Cons show ?case by (simp add: Let_def)
qed

lemma at_index_Cons_Suc: "0 \<le> i \<Longrightarrow> at_index (x # xs) (i + 1) = at_index xs i"
  by (auto simp: at_index_def nat_add_distrib)

lemma at_index_neg: "at_index xs (- 1) = None"
  by (simp add: at_index_def)

lemma at_index_findIndex: "at_index xs (findIndex P xs) = List.find P xs"
proof (induction xs)
  case Nil
  show ?case by (simp add: at_index_def)
next
  case (Cons x xs)
  show ?case
  proof (cases "P x")
    case True
    then show ?thesis by (simp add: at_index_def)
  next
    case False
    show ?thesis
    proof (cases "findIndex P xs = - 1")
      case True
      with Cons False show ?thesis by (simp add: at_index_neg)
    next
      case neq: False
      with findIndex_ge [of P xs] have "0 \<le> findIndex P xs" by linarith
      with Cons False neq show ?thesis by (simp add: at_index_Cons_Suc)
    qed
  qed
qed

lemma getChannel_find:
  "getChannel m ident w =
     List.find (\<lambda>c. id_c (channelHeap w c) = ident) (channels (mixerHeap w m))"
  by (simp add: getChannel_def at_index_findIndex split: option.split)

text \<open>
  Claim C9. \<^verbatim>\<open>getChannel\<close> is a total function into an optional channel, so it cannot
  throw. When no channel of the mixer has the id it returns the absent value; when
  the channel at position \<open>i\<close> has the id and none before it has, it returns that
  channel, whatever comes after it.
\<close>

theorem getChannel_absent_or_first:
  "((\<forall>c \<in> set (channels (mixerHeap w m)). id_c (channelHeap w c) \<noteq> ident)
      \<longrightarrow> getChannel m ident w = None) \<and>
   (\<forall>i < length (channels (mixerHeap w m)).
      id_c (channelHeap w (channels (mixerHeap w m) ! i)) = ident \<and>
      (\<forall>j < i. id_c (channelHeap w (channels (mixerHeap w m) ! j)) \<noteq> ident)
      \<longrightarrow> getChannel m ident w = Some (channels (mixerHeap w m) ! i))"
proof (intro conjI allI impI)
  assume "\<forall>c \<in> set (channels (mixerHeap w m)). id_c (channelHeap w c) \<noteq> ident"
  then show "getChannel m ident w = None"
    by (simp add: getChannel_find find_None_iff)
next
  fix i
  assume "i < length (channels (mixerHeap w m))"
    and "id_c (channelHeap w (channels (mixerHeap w m) ! i)) = ident \<and>
      (\<forall>j < i. id_c (channelHeap w (channels (mixerHeap w m) ! j)) \<noteq> ident)"
  then show "getChannel m ident w = Some (channels (mixerHeap w m) ! i)"
    unfolding getChannel_find find_Some_iff by blast
qed

theorem getChannel_absent_or_first_witness:
  "channels (mixerHeap same_ids 0) = [1, 2] \<and>
   id_c (channelHeap same_ids 1) = ''a'' \<and> id_c (channelHeap same_ids 2) = ''a'' \<and>
   getChannel 0 ''missing'' same_ids = None \<and> getChannel 0 ''a'' same_ids = Some 1"
proof -
  have cs: "channels (mixerHeap same_ids 0) = [1, 2]"
    and ids: "id_c (channelHeap same_ids 1) = ''a''" "id_c (channelHeap same_ids 2) = ''a''"
    by (simp_all add: mixer_eval)
  from getChannel_absent_or_first [of same_ids 0 "''missing''"] cs ids
  have "getChannel 0 ''missing'' same_ids = None" by simp
  moreover from getChannel_absent_or_first [of same_ids 0 "''a''"] cs ids
  have "getChannel 0 ''a'' same_ids = Some 1" by auto
  ultimately show ?thesis using cs ids by simp
qed

section \<open>Default channel ids\<close>

text \<open>
  Claim C6. On a mixer that has no channel yet, three calls of \<^verbatim>\<open>addChannel( )\<close>
  without an id give the new channels the ids "0", "1" and "2" in that order, the
  mixer lists them in creation order, and \<^verbatim>\<open>getChannel( "1" )\<close> then returns the
  second of them.
\<close>

theorem addChannel_default_ids:
  assumes "channels (mixerHeap w m) = []"
    and "addChannel m None w = (c1, w1)"
    and "addChannel m None w1 = (c2, w2)"
    and "addChannel m None w2 = (c3, w3)"
  shows "id_c (channelHeap w1 c1) = ''0'' \<and> id_c (channelHeap w2 c2) = ''1'' \<and>
         id_c (channelHeap w3 c3) = ''2'' \<and>
         channels (mixerHeap w3 m) = [c1, c2, c3] \<and>
         map (\<lambda>c. id_c (channelHeap w3 c)) [c1, c2, c3] = [''0'', ''1'', ''2''] \<and>
         getChannel m ''1'' w3 = Some c2"
  using assms
  by (auto simp: addChannel_eq or_default_def toString_digit digit_0_1_2 getChannel_def
        at_index_def)

theorem addChannel_default_ids_witness:
  "channels (mixerHeap new_mixer 0) = [] \<and>
   channels (mixerHeap three_channels 0) = [1, 2, 3] \<and>
   map (\<lambda>c. id_c (channelHeap three_channels c)) [1, 2, 3] = [''0'', ''1'', ''2''] \<and>
   getChannel 0 ''1'' three_channels = Some 2"
proof -
  have e: "channels (mixerHeap new_mixer 0) = []" by (simp add: mixer_eval)
  have a1: "addChannel 0 None new_mixer = (1, one_channel)"
    by (simp add: one_channel_def) (simp add: mixer_eval)
  have a2: "addChannel 0 None one_channel = (2, two_channels)"
    by (simp add: two_channels_def) (simp add: mixer_eval)
  have a3: "addChannel 0 None two_channels = (3, three_channels)"
    by (simp add: three_channels_def) (simp add: mixer_eval)
  from addChannel_default_ids [OF e a1 a2 a3] e show ?thesis by simp
qed

text \<open>
  Claim C10. The empty string as explicit id is treated as no id at all: the call does
  what \<^verbatim>\<open>addChannel( )\<close> does, and the id of the new channel is the decimal string of
  the number of channels the mixer had, which is never the empty string.
\<close>

theorem addChannel_empty_string:
  "addChannel m (Some '''') w = addChannel m None w \<and>
   id_c (channelHeap (snd (addChannel m (Some '''') w)) (fst (addChannel m (Some '''') w)))
     = toString (length (channels (mixerHeap w m))) \<and>
   id_c (channelHeap (snd (addChannel m (Some '''') w)) (fst (addChannel m (Some '''') w)))
     \<noteq> ''''"
  by (simp add: addChannel_eq or_default_def toString_not_empty)

theorem addChannel_empty_string_witness:
  "id_c (channelHeap (snd (addChannel 0 (Some '''') two_channels))
          (fst (addChannel 0 (Some '''') two_channels))) = ''2''"
proof -
  have "length (channels (mixerHeap two_channels 0)) = 2" by (simp add: mixer_eval)
  with addChannel_empty_string [of 0 two_channels, THEN conjunct2, THEN conjunct1]
  show ?thesis by (simp add: toString_digit digit_def)
qed

section \<open>Mute and volume\<close>



section \<open>Attaching tracks\<close>

lemma output_t_attached:
  "t \<in> set (tracks (channelHeap w c)) \<Longrightarrow> output_t t c w = (Some True, w)"
  by (auto simp: output_t_def findIndex_none)

lemma output_t_new:
  "t \<notin> set (tracks (channelHeap w c)) \<Longrightarrow>
   output_t t c w =
     (None, w\<lparr>trackHeap := (trackHeap w)(t := (trackHeap w t)\<lparr>sourceNode := {c}\<rparr>),
              channelHeap := (channelHeap w)(c := (channelHeap w c)
                \<lparr>tracks := tracks (channelHeap w c) @ [t]\<rparr>)\<rparr>)"
  by (auto simp: output_t_def findIndex_none upd_channel_def Let_def)

lemma output_t_attaches: "t \<in> set (tracks (channelHeap (snd (output_t t c w)) c))"
  by (cases "t \<in> set (tracks (channelHeap w c))") (simp_all add: output_t_attached output_t_new)

lemma attach_same_state:
  "snd (addTrack c t w) = snd (output_t t c w) \<and> snd (input_c c (Track t) w) = snd (output_t t c w)"
  by (simp add: addTrack_def input_c_def split: prod.splits)

text \<open>
  Claim C8. Once a track has been attached to a channel, by \<^verbatim>\<open>output\<close>, \<^verbatim>\<open>addTrack\<close>
  or \<^verbatim>\<open>input\<close>, attaching it to the same channel again by any of the three changes
  nothing at all, so the track list keeps its length; \<^verbatim>\<open>output\<close> returns
  \<^verbatim>\<open>true\<close>, \<^verbatim>\<open>addTrack\<close> the channel and \<^verbatim>\<open>input\<close> the track.
\<close>

theorem attach_twice_noop:
  assumes "w1 = snd (output_t t c w) \<or> w1 = snd (addTrack c t w) \<or> w1 = snd (input_c c (Track t) w)"
  shows "output_t t c w1 = (Some True, w1) \<and>
         addTrack c t w1 = (c, w1) \<and>
         input_c c (Track t) w1 = (t, w1) \<and>
         length (tracks (channelHeap (snd (output_t t c w1)) c)) = length (tracks (channelHeap w1 c)) \<and>
         length (tracks (channelHeap (snd (addTrack c t w1)) c)) = length (tracks (channelHeap w1 c)) \<and>
         length (tracks (channelHeap (snd (input_c c (Track t) w1)) c)) = length (tracks (channelHeap w1 c))"
proof -
  from assms have "w1 = snd (output_t t c w)" by (auto simp: attach_same_state)
  then have "t \<in> set (tracks (channelHeap w1 c))" by (simp add: output_t_attaches)
  then have "output_t t c w1 = (Some True, w1)" by (rule output_t_attached)
  then show ?thesis by (simp add: addTrack_def input_c_def)
qed

lemmas track_eval = with_track_def track_attached_def track_moved_def new_AudioTrack_def
  addTrack_def output_t_def upd_channel_def Let_def

lemma track_attached_tracks: "tracks (channelHeap track_attached 1) = [3]"
  by (simp add: track_eval mixer_eval)

theorem attach_twice_noop_witness:
  "track_attached = snd (addTrack 1 3 with_track) \<and>
   tracks (channelHeap track_attached 1) = [3] \<and>
   output_t 3 1 track_attached = (Some True, track_attached) \<and>
   addTrack 1 3 track_attached = (1, track_attached) \<and>
   input_c 1 (Track 3) track_attached = (3, track_attached)"
proof -
  have h: "track_attached = snd (output_t 3 1 with_track) \<or>
           track_attached = snd (addTrack 1 3 with_track) \<or>
           track_attached = snd (input_c 1 (Track 3) with_track)"
    by (simp add: track_attached_def)
  from attach_twice_noop [OF h] track_attached_tracks show ?thesis
    by (simp add: track_attached_def)
qed

text \<open>
  Claim C5 says that a track is in the list of at most one channel, and that attaching
  it to another channel removes it from the list of the previous one. The code never
  removes a track from a list: after track 3 was attached to channel 1 and then to
  channel 2, both lists hold it, and only its output port has moved to channel 2.
\<close>

theorem track_in_two_lists:
  "tracks (channelHeap track_moved 1) = [3] \<and> tracks (channelHeap track_moved 2) = [3] \<and>
   sourceNode (trackHeap track_moved 3) = {2}"
  by (simp add: track_eval mixer_eval)

text \<open>
  Claim C5 as the code has it. Attaching a track to a channel whose list does not hold
  it disconnects the track's output port from wherever it was and connects it to the
  input of that channel alone, and appends the track to that channel's list. The list
  of every other channel stays as it was, so a previous channel still lists the track.
\<close>

theorem output_t_reconnects:
  assumes "t \<notin> set (tracks (channelHeap w b))"
  shows "fst (output_t t b w) = None \<and>
         sourceNode (trackHeap (snd (output_t t b w)) t) = {b} \<and>
         tracks (channelHeap (snd (output_t t b w)) b) = tracks (channelHeap w b) @ [t] \<and>
         (\<forall>a. a \<noteq> b \<longrightarrow> tracks (channelHeap (snd (output_t t b w)) a) = tracks (channelHeap w a))"
  using assms by (simp add: output_t_new)

theorem output_t_reconnects_witness:
  "3 \<notin> set (tracks (channelHeap track_attached 2)) \<and>
   3 \<in> set (tracks (channelHeap track_attached 1)) \<and>
   sourceNode (trackHeap track_attached 3) = {1} \<and>
   sourceNode (trackHeap (snd (output_t 3 2 track_attached)) 3) = {2} \<and>
   tracks (channelHeap (snd (output_t 3 2 track_attached)) 2) = [3] \<and>
   tracks (channelHeap (snd (output_t 3 2 track_attached)) 1) = [3]"
proof -
  have h: "3 \<notin> set (tracks (channelHeap track_attached 2))"
    by (simp add: track_eval mixer_eval)
  have e: "tracks (channelHeap track_attached 2) = []" "tracks (channelHeap track_attached 1) = [3]"
    "sourceNode (trackHeap track_attached 3) = {1}"
    by (simp_all add: track_eval mixer_eval)
  from output_t_reconnects [OF h] e show ?thesis by simp
qed

section \<open>Properties of fades\<close>

lemmas callback_defs = tick_def fadeOut_callback_def fadeIn_callback_def

lemma run_snoc: "run (es @ [e]) w = exec e (run es w)"
  by (induction es arbitrary: w) simp_all

lemma run_ticks_Suc: "run (replicate (Suc n) (Tick h)) w = tick h (run (replicate n (Tick h)) w)"
proof -
  have "replicate (Suc n) (Tick h) = replicate n (Tick h) @ [Tick h]"
    by (simp add: replicate_append_same)
  then show ?thesis by (simp only: run_snoc exec.simps)
qed

lemma fadeOut_registers:
  "fst (fadeOut c d w) = nextHandle w \<and>
   intervals (snd (fadeOut c d w)) (nextHandle w) =
     Some \<lparr>kind = FadeOut, chan = c, vpc = vpc_of (ms_of d), delay = 2\<rparr> \<and>
   promises (snd (fadeOut c d w)) (nextHandle w) = Some Pending \<and>
   nextHandle (snd (fadeOut c d w)) = Suc (nextHandle w) \<and>
   channelHeap (snd (fadeOut c d w)) = channelHeap w"
  by (simp add: op_defs Let_def)

lemma fadeIn_registers:
  "fst (fadeIn c d w) = nextHandle w \<and>
   intervals (snd (fadeIn c d w)) (nextHandle w) =
     Some \<lparr>kind = FadeIn, chan = c, vpc = vpc_of (ms_of d), delay = 2\<rparr> \<and>
   promises (snd (fadeIn c d w)) (nextHandle w) = Some Pending \<and>
   nextHandle (snd (fadeIn c d w)) = Suc (nextHandle w) \<and>
   channelHeap (snd (fadeIn c d w)) = channelHeap w"
  by (simp add: op_defs Let_def)

lemma fade_call_other:
  "h \<noteq> nextHandle w \<Longrightarrow>
   intervals (snd (fadeOut c d w)) h = intervals w h \<and>
   intervals (snd (fadeIn c d w)) h = intervals w h \<and>
   promises (snd (fadeOut c d w)) h = promises w h \<and>
   promises (snd (fadeIn c d w)) h = promises w h"
  by (simp add: op_defs Let_def)

lemma vpc_of_pos: "0 < ms \<Longrightarrow> vpc_of ms = Some (2 / ms * 10) \<and> 0 < 2 / ms * 10"
  by (simp add: vpc_of_def)

subsection \<open>One firing\<close>

lemma tick_other:
  "j \<noteq> h \<Longrightarrow> intervals (tick j w) h = intervals w h \<and> promises (tick j w) h = promises w h"
  by (auto simp: callback_defs op_defs split: option.splits fade.splits sum.splits)

lemma tick_nextHandle: "nextHandle (tick j w) = nextHandle w"
  by (auto simp: callback_defs op_defs split: option.splits fade.splits sum.splits)


lemma tick_interval:
  "intervals (tick j w) h = None \<or> intervals (tick j w) h = intervals w h"
  by (auto simp: callback_defs op_defs split: option.splits fade.splits sum.splits)

lemma tick_stays_resolved:
  "promises (tick j w) h = Some Pending \<Longrightarrow> promises w h = Some Pending"
  by (auto simp: callback_defs op_defs split: option.splits fade.splits sum.splits if_splits)

lemma tick_fadeOut_gain:
  assumes "intervals w h = Some \<lparr>kind = FadeOut, chan = c, vpc = Some v, delay = p\<rparr>"
  shows "inputNode (channelHeap (tick h w) c) =
           (if inputNode (channelHeap w c) \<le> 0 then 0 else inputNode (channelHeap w c) - v)"
  using assms by (simp add: callback_defs op_defs)

lemma tick_fadeIn_gain:
  assumes "intervals w h = Some \<lparr>kind = FadeIn, chan = c, vpc = Some v, delay = p\<rparr>"
  shows "inputNode (channelHeap (tick h w) c) =
           (if inputNode (channelHeap w c) \<ge> 1 then 1 else inputNode (channelHeap w c) + v)"
  using assms by (simp add: callback_defs op_defs)

lemma tick_at_boundary:
  assumes "intervals w h = Some \<lparr>kind = k, chan = c, vpc = v, delay = p\<rparr>"
    and "promises w h = Some Pending"
    and "k = FadeOut \<and> inputNode (channelHeap w c) \<le> 0 \<or>
         k = FadeIn \<and> inputNode (channelHeap w c) \<ge> 1"
  shows "inputNode (channelHeap (tick h w) c) = boundary k \<and>
         intervals (tick h w) h = None \<and>
         promises (tick h w) h = Some (Fulfilled True)"
  using assms by (auto simp: callback_defs op_defs boundary_def)

lemma tick_before_boundary:
  assumes "intervals w h = Some \<lparr>kind = k, chan = c, vpc = v, delay = p\<rparr>"
    and "k = FadeOut \<and> inputNode (channelHeap w c) > 0 \<or>
         k = FadeIn \<and> inputNode (channelHeap w c) < 1"
  shows "intervals (tick h w) h = intervals w h \<and> promises (tick h w) = promises w"
  using assms by (cases v) (auto simp: callback_defs op_defs)

lemma tick_own:
  assumes "intervals w h = Some \<lparr>kind = k, chan = c, vpc = v, delay = p\<rparr>"
    and "promises w h = Some Pending"
  shows "(promises (tick h w) h = Some Pending \<and> intervals (tick h w) h = intervals w h) \<or>
         (promises (tick h w) h = Some (Fulfilled True) \<and> intervals (tick h w) h = None \<and>
          inputNode (channelHeap (tick h w) c) = boundary k)"
proof (cases "k = FadeOut \<and> inputNode (channelHeap w c) \<le> 0 \<or>
              k = FadeIn \<and> inputNode (channelHeap w c) \<ge> 1")
  case True
  from tick_at_boundary [OF assms True] show ?thesis by simp
next
  case False
  then have "k = FadeOut \<and> inputNode (channelHeap w c) > 0 \<or>
             k = FadeIn \<and> inputNode (channelHeap w c) < 1"
    by (cases k) auto
  from tick_before_boundary [OF assms(1) this] assms(2) show ?thesis by simp
qed

subsection \<open>The timer of a pending fade\<close>

lemma fade_pending_init:
  "fade k c d w = (h, w1) \<Longrightarrow>
   fade_pending k c (vpc_of (ms_of d)) h w1 \<and> promises w1 h = Some Pending"
  by (cases k) (auto simp: fade_def fade_pending_def op_defs Let_def)

lemma fade_pending_exec:
  assumes "fade_pending k c v h w"
  shows "fade_pending k c v h (exec e w)"
proof (cases e)
  case (Tick j)
  show ?thesis
  proof (cases "promises (tick j w) h = Some Pending")
    case False
    with assms Tick show ?thesis by (simp add: fade_pending_def tick_nextHandle)
  next
    case True
    then have p: "promises w h = Some Pending" by (rule tick_stays_resolved)
    with assms have iv: "intervals w h = Some \<lparr>kind = k, chan = c, vpc = v, delay = 2\<rparr>"
      by (simp add: fade_pending_def)
    have "intervals (tick j w) h = intervals w h"
    proof (cases "j = h")
      case True
      with tick_own [OF iv p] \<open>promises (tick j w) h = Some Pending\<close> show ?thesis by auto
    next
      case False
      then show ?thesis by (simp add: tick_other)
    qed
    with assms iv Tick show ?thesis by (simp add: fade_pending_def tick_nextHandle)
  qed
qed (use assms in \<open>auto simp: fade_pending_def op_defs Let_def\<close>)

lemma fade_pending_run: "fade_pending k c v h w \<Longrightarrow> fade_pending k c v h (run es w)"
  by (induction es arbitrary: w) (simp_all add: fade_pending_exec)

lemma exec_resolves:
  assumes "fade_pending k c v h w"
    and "promises w h = Some Pending"
    and "promises (exec e w) h \<noteq> Some Pending"
  shows "e = Tick h \<and> inputNode (channelHeap (exec e w) c) = boundary k \<and>
         intervals (exec e w) h = None \<and> promises (exec e w) h = Some (Fulfilled True)"
proof (cases e)
  case (Tick j)
  from assms have iv: "intervals w h = Some \<lparr>kind = k, chan = c, vpc = v, delay = 2\<rparr>"
    by (simp add: fade_pending_def)
  have "j = h" using assms Tick tick_other [of j h w] by auto
  with tick_own [OF iv assms(2)] assms(3) Tick show ?thesis by auto
qed (use assms in \<open>auto simp: fade_pending_def op_defs Let_def\<close>)

lemma fade_resolution:
  assumes "fade k c d w = (h, w1)"
    and "promises (run es w1) h = Some Pending"
    and "promises (exec e (run es w1)) h \<noteq> Some Pending"
  shows "e = Tick h \<and>
         inputNode (channelHeap (exec e (run es w1)) c) = boundary k \<and>
         intervals (exec e (run es w1)) h = None \<and>
         promises (exec e (run es w1)) h = Some (Fulfilled True)"
proof -
  from fade_pending_init [OF assms(1)]
  have "fade_pending k c (vpc_of (ms_of d)) h (run es w1)"
    by (simp add: fade_pending_run)
  from exec_resolves [OF this assms(2) assms(3)] show ?thesis .
qed

lemma boundary_simps: "boundary FadeOut = 0" "boundary FadeIn = 1"
  by (simp_all add: boundary_def)

text \<open>
  Claim C1. Take the promise and the state that \<^verbatim>\<open>fadeOut\<close> or \<^verbatim>\<open>fadeIn\<close> returns,
  for any channel, any duration argument and any state before the call, and let any
  events follow: timers firing in any order, further fade calls, property sets. If the
  promise is pending before an event and no longer pending after it, then the event is
  a firing of the timer of that very call, the pre-fade input gain of the channel is
  exactly 0 after a fade-out and exactly 1 after a fade-in, the timer is cancelled, and
  the promise is fulfilled with \<^verbatim>\<open>true\<close>.
\<close>

theorem fade_resolves_at_boundary:
  assumes "promises (run es w1) h = Some Pending"
    and "promises (exec e (run es w1)) h \<noteq> Some Pending"
  shows "(fadeOut c d w = (h, w1) \<longrightarrow>
            e = Tick h \<and>
            inputNode (channelHeap (exec e (run es w1)) c) = 0 \<and>
            intervals (exec e (run es w1)) h = None \<and>
            promises (exec e (run es w1)) h = Some (Fulfilled True)) \<and>
         (fadeIn c d w = (h, w1) \<longrightarrow>
            e = Tick h \<and>
            inputNode (channelHeap (exec e (run es w1)) c) = 1 \<and>
            intervals (exec e (run es w1)) h = None \<and>
            promises (exec e (run es w1)) h = Some (Fulfilled True))"
proof (rule conjI; rule impI)
  assume "fadeOut c d w = (h, w1)"
  then have "fade FadeOut c d w = (h, w1)" by (simp add: fade_def)
  from fade_resolution [OF this assms, unfolded boundary_simps]
  show "e = Tick h \<and>
        inputNode (channelHeap (exec e (run es w1)) c) = 0 \<and>
        intervals (exec e (run es w1)) h = None \<and>
        promises (exec e (run es w1)) h = Some (Fulfilled True)" .
next
  assume "fadeIn c d w = (h, w1)"
  then have "fade FadeIn c d w = (h, w1)" by (simp add: fade_def)
  from fade_resolution [OF this assms, unfolded boundary_simps]
  show "e = Tick h \<and>
        inputNode (channelHeap (exec e (run es w1)) c) = 1 \<and>
        intervals (exec e (run es w1)) h = None \<and>
        promises (exec e (run es w1)) h = Some (Fulfilled True)" .
qed

lemmas fade_eval = fading_out_def both_fades_def fading_backwards_def faded_out_def fading_in_def
  op_defs callback_defs vpc_of_def ms_of_def Let_def

lemma fading_out_eq: "fadeOut 1 (Number 32) two_channels = (0, fading_out)"
  by (simp add: fading_out_def) (simp add: op_defs Let_def mixer_eval)

lemma faded_out_gain: "inputNode (channelHeap faded_out 1) = 0"
  by (simp add: fade_eval mixer_eval)

lemma fading_in_eq: "fadeIn 1 (Number 32) faded_out = (1, fading_in)"
  by (simp add: fading_in_def) (simp add: fade_eval mixer_eval)

theorem fade_resolves_at_boundary_witness:
  "promises (run [Tick 0, Tick 0] fading_out) 0 = Some Pending \<and>
   inputNode (channelHeap (run [Tick 0, Tick 0] fading_out) 1) = - (1 / 4) \<and>
   inputNode (channelHeap (exec (Tick 0) (run [Tick 0, Tick 0] fading_out)) 1) = 0 \<and>
   promises (exec (Tick 0) (run [Tick 0, Tick 0] fading_out)) 0 = Some (Fulfilled True) \<and>
   promises (run [Tick 1, Tick 1] fading_in) 1 = Some Pending \<and>
   inputNode (channelHeap (run [Tick 1, Tick 1] fading_in) 1) = 5 / 4 \<and>
   inputNode (channelHeap (exec (Tick 1) (run [Tick 1, Tick 1] fading_in)) 1) = 1 \<and>
   promises (exec (Tick 1) (run [Tick 1, Tick 1] fading_in)) 1 = Some (Fulfilled True)"
proof -
  have o1: "promises (run [Tick 0, Tick 0] fading_out) 0 = Some Pending"
    and o2: "promises (exec (Tick 0) (run [Tick 0, Tick 0] fading_out)) 0 \<noteq> Some Pending"
    and o3: "inputNode (channelHeap (run [Tick 0, Tick 0] fading_out) 1) = - (1 / 4)"
    by (simp_all add: fade_eval mixer_eval)
  have i1: "promises (run [Tick 1, Tick 1] fading_in) 1 = Some Pending"
    and i2: "promises (exec (Tick 1) (run [Tick 1, Tick 1] fading_in)) 1 \<noteq> Some Pending"
    and i3: "inputNode (channelHeap (run [Tick 1, Tick 1] fading_in) 1) = 5 / 4"
    by (simp_all add: fade_eval mixer_eval)
  from fade_resolves_at_boundary [OF o1 o2, of 1 "Number 32" two_channels] fading_out_eq
  have "inputNode (channelHeap (exec (Tick 0) (run [Tick 0, Tick 0] fading_out)) 1) = 0 \<and>
        promises (exec (Tick 0) (run [Tick 0, Tick 0] fading_out)) 0 = Some (Fulfilled True)"
    by simp
  moreover
  from fade_resolves_at_boundary [OF i1 i2, of 1 "Number 32" faded_out] fading_in_eq
  have "inputNode (channelHeap (exec (Tick 1) (run [Tick 1, Tick 1] fading_in)) 1) = 1 \<and>
        promises (exec (Tick 1) (run [Tick 1, Tick 1] fading_in)) 1 = Some (Fulfilled True)"
    by simp
  ultimately show ?thesis using o1 o3 i1 i3 by simp
qed

subsection \<open>Fades that run alone\<close>



lemma ceiling_step_less:
  fixes x :: real
  assumes "0 < x"
  shows "nat \<lceil>x - 1\<rceil> < nat \<lceil>x\<rceil>"
proof -
  from assms have "0 < \<lceil>x\<rceil>" by simp
  moreover have "\<lceil>x - 1\<rceil> = \<lceil>x\<rceil> - 1" by simp
  ultimately show ?thesis by simp
qed

lemma fadeOut_ticks_resolve:
  assumes "0 < v"
  shows "intervals w h = Some \<lparr>kind = FadeOut, chan = c, vpc = Some v, delay = p\<rparr> \<Longrightarrow>
         promises w h = Some Pending \<Longrightarrow>
         \<exists>n. promises (run (replicate n (Tick h)) w) h = Some (Fulfilled True)"
proof (induction "nat \<lceil>inputNode (channelHeap w c) / v\<rceil>" arbitrary: w rule: less_induct)
  case less
  show ?case
  proof (cases "inputNode (channelHeap w c) \<le> 0")
    case True
    with tick_at_boundary [OF less.prems(1) less.prems(2)]
    have "promises (run (replicate 1 (Tick h)) w) h = Some (Fulfilled True)" by simp
    then show ?thesis by blast
  next
    case False
    then have pos: "0 < inputNode (channelHeap w c) / v" using assms by simp
    have g: "inputNode (channelHeap (tick h w) c) = inputNode (channelHeap w c) - v"
      using tick_fadeOut_gain [OF less.prems(1)] False by simp
    have "inputNode (channelHeap (tick h w) c) / v = inputNode (channelHeap w c) / v - 1"
      using assms by (simp add: g field_simps)
    with ceiling_step_less [OF pos]
    have m: "nat \<lceil>inputNode (channelHeap (tick h w) c) / v\<rceil>
               < nat \<lceil>inputNode (channelHeap w c) / v\<rceil>" by simp
    from tick_before_boundary [OF less.prems(1)] False less.prems
    have "intervals (tick h w) h = Some \<lparr>kind = FadeOut, chan = c, vpc = Some v, delay = p\<rparr>"
      and "promises (tick h w) h = Some Pending" by simp_all
    from less.hyps [OF m this] obtain n
      where "promises (run (replicate n (Tick h)) (tick h w)) h = Some (Fulfilled True)" ..
    then have "promises (run (replicate (Suc n) (Tick h)) w) h = Some (Fulfilled True)" by simp
    then show ?thesis ..
  qed
qed

lemma fadeIn_ticks_resolve:
  assumes "0 < v"
  shows "intervals w h = Some \<lparr>kind = FadeIn, chan = c, vpc = Some v, delay = p\<rparr> \<Longrightarrow>
         promises w h = Some Pending \<Longrightarrow>
         \<exists>n. promises (run (replicate n (Tick h)) w) h = Some (Fulfilled True)"
proof (induction "nat \<lceil>(1 - inputNode (channelHeap w c)) / v\<rceil>" arbitrary: w rule: less_induct)
  case less
  show ?case
  proof (cases "inputNode (channelHeap w c) \<ge> 1")
    case True
    with tick_at_boundary [OF less.prems(1) less.prems(2)]
    have "promises (run (replicate 1 (Tick h)) w) h = Some (Fulfilled True)" by simp
    then show ?thesis by blast
  next
    case False
    then have pos: "0 < (1 - inputNode (channelHeap w c)) / v" using assms by simp
    have g: "inputNode (channelHeap (tick h w) c) = inputNode (channelHeap w c) + v"
      using tick_fadeIn_gain [OF less.prems(1)] False by simp
    have "(1 - inputNode (channelHeap (tick h w) c)) / v
            = (1 - inputNode (channelHeap w c)) / v - 1"
      using assms by (simp add: g field_simps)
    with ceiling_step_less [OF pos]
    have m: "nat \<lceil>(1 - inputNode (channelHeap (tick h w) c)) / v\<rceil>
               < nat \<lceil>(1 - inputNode (channelHeap w c)) / v\<rceil>" by simp
    from tick_before_boundary [OF less.prems(1)] False less.prems
    have "intervals (tick h w) h = Some \<lparr>kind = FadeIn, chan = c, vpc = Some v, delay = p\<rparr>"
      and "promises (tick h w) h = Some Pending" by simp_all
    from less.hyps [OF m this] obtain n
      where "promises (run (replicate n (Tick h)) (tick h w)) h = Some (Fulfilled True)" ..
    then have "promises (run (replicate (Suc n) (Tick h)) w) h = Some (Fulfilled True)" by simp
    then show ?thesis ..
  qed
qed

text \<open>
  A fade with a positive duration that runs alone does come to its end: after enough
  firings of its timer its promise is fulfilled.
\<close>

lemma fade_resolves_eventually:
  assumes "0 < ms_of d"
  shows "(\<exists>n. promises (run (replicate n (Tick (fst (fadeOut c d w)))) (snd (fadeOut c d w)))
                 (fst (fadeOut c d w)) = Some (Fulfilled True)) \<and>
         (\<exists>n. promises (run (replicate n (Tick (fst (fadeIn c d w)))) (snd (fadeIn c d w)))
                 (fst (fadeIn c d w)) = Some (Fulfilled True))"
proof -
  from vpc_of_pos [OF assms] have v: "vpc_of (ms_of d) = Some (2 / ms_of d * 10)"
    and p: "0 < 2 / ms_of d * 10" by simp_all
  from fadeOut_registers [of c d w] v
  have "intervals (snd (fadeOut c d w)) (nextHandle w) =
          Some \<lparr>kind = FadeOut, chan = c, vpc = Some (2 / ms_of d * 10), delay = 2\<rparr>"
    and "promises (snd (fadeOut c d w)) (nextHandle w) = Some Pending" by simp_all
  from fadeOut_ticks_resolve [OF p this] fadeOut_registers [of c d w]
  have A: "\<exists>n. promises (run (replicate n (Tick (fst (fadeOut c d w)))) (snd (fadeOut c d w)))
                 (fst (fadeOut c d w)) = Some (Fulfilled True)" by simp
  from fadeIn_registers [of c d w] v
  have "intervals (snd (fadeIn c d w)) (nextHandle w) =
          Some \<lparr>kind = FadeIn, chan = c, vpc = Some (2 / ms_of d * 10), delay = 2\<rparr>"
    and "promises (snd (fadeIn c d w)) (nextHandle w) = Some Pending" by simp_all
  from fadeIn_ticks_resolve [OF p this] fadeIn_registers [of c d w]
  have B: "\<exists>n. promises (run (replicate n (Tick (fst (fadeIn c d w)))) (snd (fadeIn c d w)))
                 (fst (fadeIn c d w)) = Some (Fulfilled True)" by simp
  from A B show ?thesis ..
qed

subsection \<open>Step and bounds\<close>





subsection \<open>Fades at the same time\<close>

lemma handles_issued_exec: "handles_issued w \<Longrightarrow> handles_issued (exec e w)"
proof (cases e)
  case (Tick j)
  assume "handles_issued w"
  then have a: "h < nextHandle w" if "intervals w h \<noteq> None" for h
    using that by (simp add: handles_issued_def)
  have "h < nextHandle (tick j w)" if "intervals (tick j w) h \<noteq> None" for h
  proof -
    from that tick_interval [of j w h] have "intervals w h \<noteq> None" by auto
    then show ?thesis by (simp add: a tick_nextHandle)
  qed
  with Tick show ?thesis by (simp add: handles_issued_def)
qed (auto simp: handles_issued_def op_defs Let_def less_Suc_eq)

lemma handles_issued_run: "handles_issued w \<Longrightarrow> handles_issued (run es w)"
  by (induction es arbitrary: w) (simp_all add: handles_issued_exec)

lemma handles_issued_two_channels: "handles_issued two_channels"
  by (simp add: handles_issued_def mixer_eval)

text \<open>
  Claim C2 says that a fade call first cancels the timer of a fade that is still
  running on the channel. Neither \<^verbatim>\<open>fadeOut\<close> nor \<^verbatim>\<open>fadeIn\<close> calls
  \<^verbatim>\<open>clearInterval\<close> outside its own callback: after \<^verbatim>\<open>fadeOut( 32 )\<close> and then
  \<^verbatim>\<open>fadeIn( 32 )\<close> on channel 1 both timers are active on that channel.
\<close>

theorem two_fades_active:
  "intervals both_fades 0 = Some \<lparr>kind = FadeOut, chan = 1, vpc = Some (5 / 8), delay = 2\<rparr> \<and>
   intervals both_fades 1 = Some \<lparr>kind = FadeIn, chan = 1, vpc = Some (5 / 8), delay = 2\<rparr>"
  by (simp add: fade_eval mixer_eval)

text \<open>
  Claim C2 as the code has it. A fade call cancels nothing: every timer that was
  active before \<^verbatim>\<open>fadeOut\<close> or \<^verbatim>\<open>fadeIn\<close> is active after it with the same callback,
  and the call adds one timer under a handle that was not in use. A firing of one
  timer leaves every other timer as it was, so a timer ends only in its own callback.
  Any number of fades can therefore be active on one channel.
\<close>

theorem fade_call_cancels_nothing:
  assumes "handles_issued w"
  shows "(\<forall>h iv. intervals w h = Some iv \<longrightarrow>
            intervals (snd (fadeOut c d w)) h = Some iv \<and>
            intervals (snd (fadeIn c d w)) h = Some iv) \<and>
         intervals w (fst (fadeOut c d w)) = None \<and>
         intervals (snd (fadeOut c d w)) (fst (fadeOut c d w)) =
           Some \<lparr>kind = FadeOut, chan = c, vpc = vpc_of (ms_of d), delay = 2\<rparr> \<and>
         intervals w (fst (fadeIn c d w)) = None \<and>
         intervals (snd (fadeIn c d w)) (fst (fadeIn c d w)) =
           Some \<lparr>kind = FadeIn, chan = c, vpc = vpc_of (ms_of d), delay = 2\<rparr> \<and>
         (\<forall>h h'. h' \<noteq> h \<longrightarrow> intervals (tick h w) h' = intervals w h') \<and>
         handles_issued (snd (fadeOut c d w)) \<and> handles_issued (snd (fadeIn c d w))"
proof -
  from assms have fresh: "intervals w (nextHandle w) = None"
    by (auto simp: handles_issued_def)
  have keep: "intervals (snd (fadeOut c d w)) h = Some iv \<and>
              intervals (snd (fadeIn c d w)) h = Some iv"
    if "intervals w h = Some iv" for h iv
  proof -
    from that fresh have "h \<noteq> nextHandle w" by auto
    from fade_call_other [OF this] that show ?thesis by simp
  qed
  have o: "handles_issued (exec (CallFadeOut c d) w)" and i: "handles_issued (exec (CallFadeIn c d) w)"
    using assms by (rule handles_issued_exec)+
  from keep fresh o i fadeOut_registers [of c d w] fadeIn_registers [of c d w]
  show ?thesis by (simp add: tick_other)
qed

theorem fade_call_cancels_nothing_witness:
  "handles_issued fading_out \<and>
   intervals fading_out 0 = Some \<lparr>kind = FadeOut, chan = 1, vpc = Some (5 / 8), delay = 2\<rparr> \<and>
   intervals (snd (fadeIn 1 (Number 32) fading_out)) 0 =
     Some \<lparr>kind = FadeOut, chan = 1, vpc = Some (5 / 8), delay = 2\<rparr> \<and>
   intervals (snd (fadeIn 1 (Number 32) fading_out)) (fst (fadeIn 1 (Number 32) fading_out)) =
     Some \<lparr>kind = FadeIn, chan = 1, vpc = vpc_of (ms_of (Number 32)), delay = 2\<rparr>"
proof -
  have "handles_issued (exec (CallFadeOut 1 (Number 32)) two_channels)"
    using handles_issued_two_channels by (rule handles_issued_exec)
  then have h: "handles_issued fading_out" by (simp add: fading_out_def)
  have iv: "intervals fading_out 0 =
      Some \<lparr>kind = FadeOut, chan = 1, vpc = Some (5 / 8), delay = 2\<rparr>"
    by (simp add: fade_eval mixer_eval)
  from fade_call_cancels_nothing [OF h, of 1 "Number 32"] iv h show ?thesis by blast
qed


subsection \<open>Direction of a fade\<close>

lemma pending_tick_fadeOut:
  assumes "fade_pending FadeOut c (Some v) h w"
    and "promises (tick h w) h = Some Pending"
    and "0 \<le> v"
  shows "inputNode (channelHeap (tick h w) c) \<le> inputNode (channelHeap w c)"
proof -
  from assms(2) have p: "promises w h = Some Pending" by (rule tick_stays_resolved)
  with assms(1) have iv: "intervals w h = Some \<lparr>kind = FadeOut, chan = c, vpc = Some v, delay = 2\<rparr>"
    by (simp add: fade_pending_def)
  have "\<not> inputNode (channelHeap w c) \<le> 0"
  proof
    assume "inputNode (channelHeap w c) \<le> 0"
    with tick_at_boundary [OF iv p] assms(2) show False by simp
  qed
  with tick_fadeOut_gain [OF iv] assms(3) show ?thesis by simp
qed

lemma pending_tick_fadeIn:
  assumes "fade_pending FadeIn c (Some v) h w"
    and "promises (tick h w) h = Some Pending"
    and "0 \<le> v"
  shows "inputNode (channelHeap w c) \<le> inputNode (channelHeap (tick h w) c)"
proof -
  from assms(2) have p: "promises w h = Some Pending" by (rule tick_stays_resolved)
  with assms(1) have iv: "intervals w h = Some \<lparr>kind = FadeIn, chan = c, vpc = Some v, delay = 2\<rparr>"
    by (simp add: fade_pending_def)
  have "\<not> inputNode (channelHeap w c) \<ge> 1"
  proof
    assume "inputNode (channelHeap w c) \<ge> 1"
    with tick_at_boundary [OF iv p] assms(2) show False by simp
  qed
  with tick_fadeIn_gain [OF iv] assms(3) show ?thesis by simp
qed

text \<open>
  Claim C4 says that the gain never rises during a fade-out and never falls during a
  fade-in. In \<^verbatim>\<open>fadeOut( 32 )\<close> on a new channel the timer is still active after two
  firings, with the gain at -0.25, and its third firing raises the gain to 0. In
  \<^verbatim>\<open>fadeOut( -32 )\<close> the step is negative, and already the first firing raises the
  gain from 1 to 1.625 while the timer stays active.
\<close>

theorem fade_not_monotone:
  "intervals (run (replicate 2 (Tick 0)) fading_out) 0 \<noteq> None \<and>
   gain_after 2 0 1 fading_out < gain_after 3 0 1 fading_out \<and>
   intervals (run (replicate 1 (Tick 0)) fading_backwards) 0 \<noteq> None \<and>
   gain_after 0 0 1 fading_backwards < gain_after 1 0 1 fading_backwards"
  by (simp add: gain_after_def numeral_2_eq_2 numeral_3_eq_3 fade_eval mixer_eval)

text \<open>
  Claim C4 as the code has it, for a positive duration. A firing of a fade-out timer
  that finds the gain at or above 0 does not raise it, and a firing of a fade-in timer
  that finds the gain at or below 1 does not lower it. For a fade that runs alone, as
  long as its promise is still pending after a firing, that firing has not raised the
  gain of a fade-out and has not lowered the gain of a fade-in: only the last firing,
  which sets the boundary value, can move the gain back.
\<close>

theorem fade_monotone_before_resolution:
  assumes "0 < ms"
  shows "(\<forall>w' h. intervals w' h = Some \<lparr>kind = FadeOut, chan = c, vpc = Some (2 / ms * 10), delay = 2\<rparr> \<and>
                 0 \<le> inputNode (channelHeap w' c)
            \<longrightarrow> inputNode (channelHeap (tick h w') c) \<le> inputNode (channelHeap w' c)) \<and>
         (\<forall>w' h. intervals w' h = Some \<lparr>kind = FadeIn, chan = c, vpc = Some (2 / ms * 10), delay = 2\<rparr> \<and>
                 inputNode (channelHeap w' c) \<le> 1
            \<longrightarrow> inputNode (channelHeap w' c) \<le> inputNode (channelHeap (tick h w') c)) \<and>
         (\<forall>n. promises (run (replicate (Suc n) (Tick (fst (fadeOut c (Number ms) w))))
                        (snd (fadeOut c (Number ms) w))) (fst (fadeOut c (Number ms) w)) = Some Pending
            \<longrightarrow> gain_after (Suc n) (fst (fadeOut c (Number ms) w)) c (snd (fadeOut c (Number ms) w))
                  \<le> gain_after n (fst (fadeOut c (Number ms) w)) c (snd (fadeOut c (Number ms) w))) \<and>
         (\<forall>n. promises (run (replicate (Suc n) (Tick (fst (fadeIn c (Number ms) w))))
                        (snd (fadeIn c (Number ms) w))) (fst (fadeIn c (Number ms) w)) = Some Pending
            \<longrightarrow> gain_after n (fst (fadeIn c (Number ms) w)) c (snd (fadeIn c (Number ms) w))
                  \<le> gain_after (Suc n) (fst (fadeIn c (Number ms) w)) c (snd (fadeIn c (Number ms) w)))"
proof -
  let ?v = "2 / ms * 10"
  from assms have m: "0 < ms_of (Number ms)" by (simp add: ms_of_def)
  from vpc_of_pos [OF m] have v: "vpc_of (ms_of (Number ms)) = Some ?v" and p: "0 \<le> ?v"
    by (simp_all add: ms_of_def)
  have A: "inputNode (channelHeap (tick h w') c) \<le> inputNode (channelHeap w' c)"
    if "intervals w' h = Some \<lparr>kind = FadeOut, chan = c, vpc = Some ?v, delay = 2\<rparr>"
      and "0 \<le> inputNode (channelHeap w' c)" for w' h
    using tick_fadeOut_gain [OF that(1)] that(2) p by (simp split: if_splits)
  have B: "inputNode (channelHeap w' c) \<le> inputNode (channelHeap (tick h w') c)"
    if "intervals w' h = Some \<lparr>kind = FadeIn, chan = c, vpc = Some ?v, delay = 2\<rparr>"
      and "inputNode (channelHeap w' c) \<le> 1" for w' h
    using tick_fadeIn_gain [OF that(1)] that(2) p by (simp split: if_splits)
  let ?ho = "fst (fadeOut c (Number ms) w)" and ?wo = "snd (fadeOut c (Number ms) w)"
  let ?hi = "fst (fadeIn c (Number ms) w)" and ?wi = "snd (fadeIn c (Number ms) w)"
  have "fade FadeOut c (Number ms) w = (?ho, ?wo)" by (simp add: fade_def)
  from fade_pending_init [OF this] v have po: "fade_pending FadeOut c (Some ?v) ?ho ?wo" by simp
  have "fade FadeIn c (Number ms) w = (?hi, ?wi)" by (simp add: fade_def)
  from fade_pending_init [OF this] v have pi: "fade_pending FadeIn c (Some ?v) ?hi ?wi" by simp
  have C: "gain_after (Suc n) ?ho c ?wo \<le> gain_after n ?ho c ?wo"
    if "promises (run (replicate (Suc n) (Tick ?ho)) ?wo) ?ho = Some Pending" for n
  proof -
    from po have "fade_pending FadeOut c (Some ?v) ?ho (run (replicate n (Tick ?ho)) ?wo)"
      by (rule fade_pending_run)
    from pending_tick_fadeOut [OF this that [unfolded run_ticks_Suc] p]
    show ?thesis unfolding gain_after_def run_ticks_Suc .
  qed
  have D: "gain_after n ?hi c ?wi \<le> gain_after (Suc n) ?hi c ?wi"
    if "promises (run (replicate (Suc n) (Tick ?hi)) ?wi) ?hi = Some Pending" for n
  proof -
    from pi have "fade_pending FadeIn c (Some ?v) ?hi (run (replicate n (Tick ?hi)) ?wi)"
      by (rule fade_pending_run)
    from pending_tick_fadeIn [OF this that [unfolded run_ticks_Suc] p]
    show ?thesis unfolding gain_after_def run_ticks_Suc .
  qed
  from A B C D show ?thesis by blast
qed

theorem fade_monotone_before_resolution_witness:
  "(0 :: real) < 32 \<and>
   promises (run (replicate (Suc 0) (Tick 0)) fading_out) 0 = Some Pending \<and>
   gain_after (Suc 0) 0 1 fading_out \<le> gain_after 0 0 1 fading_out \<and>
   gain_after 0 0 1 fading_out = 1 \<and> gain_after (Suc 0) 0 1 fading_out = 3 / 8"
proof -
  have p: "(0 :: real) < 32" by simp
  have s: "snd (fadeOut 1 (Number 32) two_channels) = fading_out"
    "fst (fadeOut 1 (Number 32) two_channels) = 0"
    by (simp_all only: fading_out_eq fst_conv snd_conv)
  have q: "promises (run (replicate (Suc 0) (Tick 0)) fading_out) 0 = Some Pending"
    by (simp add: fade_eval mixer_eval)
  have g: "gain_after 0 0 1 fading_out = 1" "gain_after (Suc 0) 0 1 fading_out = 3 / 8"
    by (simp_all add: gain_after_def fade_eval mixer_eval)
  from fade_monotone_before_resolution [OF p, of 1 two_channels, unfolded s] q
  have "gain_after (Suc 0) 0 1 fading_out \<le> gain_after 0 0 1 fading_out" by blast
  with p q g show ?thesis by simp
qed

end
